theory Spec2Isabelle
  imports Main "HOL-Library.Word"
begin

unbundle bit_operations_syntax

section \<open>JavaScript strings\<close>

text \<open>
  A JavaScript string is a sequence of UTF-16 code units. \<open>lit\<close> writes an ASCII
  literal of the source as such a sequence.
\<close>

type_synonym code_unit = "16 word"
type_synonym jsstring = "code_unit list"
type_synonym byte = "8 word"

definition lit :: "string \<Rightarrow> jsstring" where
  "lit s = map of_char s"

text \<open>
  \<open>String.prototype.trim\<close> removes the code units that ECMAScript calls WhiteSpace
  or LineTerminator from both ends. All of them lie in the basic plane.
\<close>

definition is_space :: "code_unit \<Rightarrow> bool" where
  "is_space c \<longleftrightarrow>
     c = 0x0009 \<or> c = 0x000A \<or> c = 0x000B \<or> c = 0x000C \<or> c = 0x000D \<or>
     c = 0x0020 \<or> c = 0x00A0 \<or> c = 0x1680 \<or> (0x2000 \<le> c \<and> c \<le> 0x200A) \<or>
     c = 0x2028 \<or> c = 0x2029 \<or> c = 0x202F \<or> c = 0x205F \<or> c = 0x3000 \<or>
     c = 0xFEFF"

definition trim :: "jsstring \<Rightarrow> jsstring" where
  "trim s = rev (dropWhile is_space (rev (dropWhile is_space s)))"

text \<open>
  \<open>s.split("\n")\<close>: the pieces between line feeds, in order. The result is never
  empty: a string without a line feed is its own single piece, and a string that ends
  in a line feed has an empty last piece.
\<close>

fun split_nl :: "jsstring \<Rightarrow> jsstring list" where
  "split_nl [] = [[]]"
| "split_nl (c # cs) =
     (if c = 0x000A then [] # split_nl cs
      else (case split_nl cs of
              [] \<Rightarrow> [[c]]
            | l # ls \<Rightarrow> (c # l) # ls))"

section \<open>TextDecoder\<close>

text \<open>
  Both components read the response body through the platform's \<open>TextDecoder\<close>
  (UTF-8, replacement mode, byte order mark not ignored). The decoder is the state
  machine of the Encoding Standard: a lead byte opens a sequence, continuation bytes
  inside the current bounds extend it, a byte outside the bounds ends the sequence with
  U+FFFD and is then handled again as a first byte.
\<close>

record utf8_decoder =
  code_point :: "32 word"
  bytes_seen :: nat
  bytes_needed :: nat
  lower_boundary :: byte
  upper_boundary :: byte

definition utf8_init :: utf8_decoder where
  "utf8_init = \<lparr>code_point = 0, bytes_seen = 0, bytes_needed = 0,
                lower_boundary = 0x80, upper_boundary = 0xBF\<rparr>"

definition utf8_first :: "utf8_decoder \<Rightarrow> byte \<Rightarrow> 32 word list \<times> utf8_decoder" where
  "utf8_first d b =
     (if b \<le> 0x7F then ([ucast b], d)
      else if 0xC2 \<le> b \<and> b \<le> 0xDF then
        ([], d\<lparr>bytes_needed := 1, code_point := ucast b AND 0x1F\<rparr>)
      else if 0xE0 \<le> b \<and> b \<le> 0xEF then
        ([], d\<lparr>lower_boundary := (if b = 0xE0 then 0xA0 else lower_boundary d),
               upper_boundary := (if b = 0xED then 0x9F else upper_boundary d),
               bytes_needed := 2, code_point := ucast b AND 0xF\<rparr>)
      else if 0xF0 \<le> b \<and> b \<le> 0xF4 then
        ([], d\<lparr>lower_boundary := (if b = 0xF0 then 0x90 else lower_boundary d),
               upper_boundary := (if b = 0xF4 then 0x8F else upper_boundary d),
               bytes_needed := 3, code_point := ucast b AND 0x7\<rparr>)
      else ([0xFFFD], d))"

definition utf8_handler :: "utf8_decoder \<Rightarrow> byte \<Rightarrow> 32 word list \<times> utf8_decoder" where
  "utf8_handler d b =
     (if bytes_needed d = 0 then utf8_first d b
      else if b < lower_boundary d \<or> upper_boundary d < b then
        (let (out, d') = utf8_first utf8_init b in (0xFFFD # out, d'))
      else
        (let d' = d\<lparr>lower_boundary := 0x80, upper_boundary := 0xBF,
                     code_point := push_bit 6 (code_point d) OR (ucast b AND 0x3F),
                     bytes_seen := bytes_seen d + 1\<rparr>
         in if bytes_seen d' \<noteq> bytes_needed d' then ([], d')
            else ([code_point d'], utf8_init)))"

fun utf8_run :: "utf8_decoder \<Rightarrow> byte list \<Rightarrow> 32 word list \<times> utf8_decoder" where
  "utf8_run d [] = ([], d)"
| "utf8_run d (b # bs) =
     (let (out, d') = utf8_handler d b; (outs, d'') = utf8_run d' bs
      in (out @ outs, d''))"

text \<open>End of input inside a sequence gives one U+FFFD.\<close>

definition utf8_end :: "utf8_decoder \<Rightarrow> 32 word list" where
  "utf8_end d = (if bytes_needed d \<noteq> 0 then [0xFFFD] else [])"

text \<open>Scalar values become UTF-16 code units; above U+FFFF, a surrogate pair.\<close>

definition utf16 :: "32 word \<Rightarrow> jsstring" where
  "utf16 cp =
     (if cp \<le> 0xFFFF then [ucast cp]
      else [ucast (0xD800 + drop_bit 10 (cp - 0x10000)),
            ucast (0xDC00 + ((cp - 0x10000) AND 0x3FF))])"

text \<open>
  The \<open>TextDecoder\<close> object: the UTF-8 state, whether the first scalar value has
  been seen (a leading U+FEFF is dropped), and the "do not flush" flag that the previous
  call left.
\<close>

record text_decoder =
  utf8 :: utf8_decoder
  bom_seen :: bool
  do_not_flush :: bool

definition new_TextDecoder :: text_decoder where
  "new_TextDecoder = \<lparr>utf8 = utf8_init, bom_seen = False, do_not_flush = False\<rparr>"

fun serialize :: "bool \<Rightarrow> 32 word list \<Rightarrow> jsstring \<times> bool" where
  "serialize seen [] = ([], seen)"
| "serialize seen (cp # cps) =
     (if \<not> seen \<and> cp = 0xFEFF then serialize True cps
      else (let (s, seen') = serialize True cps in (utf16 cp @ s, seen')))"

text \<open>
  \<open>decoder.decode(value, {stream})\<close>. A call that follows a flushing call starts
  from a new decoder. A streaming call keeps the state of an open sequence for the next
  call; a flushing call ends the input.
\<close>

definition decode :: "bool \<Rightarrow> text_decoder \<Rightarrow> byte list \<Rightarrow> jsstring \<times> text_decoder" where
  "decode stream td input =
     (let td0 = (if do_not_flush td then td else new_TextDecoder);
          (cps, u) = utf8_run (utf8 td0) input;
          cps' = (if stream then cps else cps @ utf8_end u);
          (s, seen) = serialize (bom_seen td0) cps'
      in (s, \<lparr>utf8 = u, bom_seen = seen, do_not_flush = stream\<rparr>))"

section \<open>JavaScript values\<close>

text \<open>
  The values that \<open>JSON.parse\<close> returns, and \<open>undefined\<close>, which reading an
  absent property gives. A number is held as the text that JavaScript prints for it.
  An object is its list of properties.
\<close>

datatype jsvalue =
    JUndefined
  | JNull
  | JBool bool
  | JNumber jsstring
  | JString jsstring
  | JArray "jsvalue list"
  | JObject "(jsstring \<times> jsvalue) list"

datatype js_error = JsError (err_name: jsstring) (err_message: jsstring)

definition TypeError :: "string \<Rightarrow> js_error" where
  "TypeError m = JsError (lit ''TypeError'') (lit m)"

fun join_comma :: "jsstring list \<Rightarrow> jsstring" where
  "join_comma [] = []"
| "join_comma [s] = s"
| "join_comma (s # t # ss) = s @ lit '','' @ join_comma (t # ss)"

text \<open>
  The string that \<open>+\<close> and template literals make of a value. An array prints its
  elements separated by commas, with nothing for \<open>null\<close> and \<open>undefined\<close>.
\<close>

fun ToString :: "jsvalue \<Rightarrow> jsstring" where
  "ToString JUndefined = lit ''undefined''"
| "ToString JNull = lit ''null''"
| "ToString (JBool b) = (if b then lit ''true'' else lit ''false'')"
| "ToString (JNumber n) = n"
| "ToString (JString s) = s"
| "ToString (JArray xs) =
     join_comma (map (\<lambda>x. if x = JUndefined \<or> x = JNull then [] else ToString x) xs)"
| "ToString (JObject kvs) = lit ''[object Object]''"

text \<open>
  \<open>v.k\<close> for one of the property names the components read (\<open>type\<close>,
  \<open>data\<close>, \<open>finishReason\<close>, \<open>text\<close>), none of which a built-in prototype
  defines: reading from \<open>null\<close> or \<open>undefined\<close> throws, an object gives its own
  property, every other value gives \<open>undefined\<close>.
\<close>

fun get_prop :: "jsvalue \<Rightarrow> string \<Rightarrow> js_error + jsvalue" where
  "get_prop JUndefined k = Inl (TypeError ''Cannot read properties of undefined'')"
| "get_prop JNull k = Inl (TypeError ''Cannot read properties of null'')"
| "get_prop (JObject kvs) k =
     (case map_of kvs (lit k) of None \<Rightarrow> Inr JUndefined | Some v \<Rightarrow> Inr v)"
| "get_prop v k = Inr JUndefined"

section \<open>useStreamingChat: the raw text stream\<close>

datatype role = User | Assistant

text \<open>
  A part object as it is at run time: its \<open>type\<close> property if it has one, the
  properties with numeric names \<open>0, 1, ...\<close> that spreading an array into the
  object copies, and its \<open>text\<close>.
\<close>

datatype part = Part (part_type: "jsstring option") (numbered: "part list") (part_text: jsstring)

record uimessage =
  ui_id :: jsstring
  ui_role :: role
  parts :: "part list"

datatype abort_controller = AbortController

text \<open>
  The state of the hook, the bodies of the requests it has sent, and the aborted flag of
  the signal that the request in flight was given.
\<close>

record hook_state =
  messages :: "uimessage list"
  input :: jsstring
  isLoading :: bool
  error :: "js_error option"
  abortControllerRef :: "abort_controller option"
  signal_aborted :: bool
  requests :: "uimessage list list"

text \<open>
  What the transport does during one call. A read gives bytes or rejects; the end of the
  list is \<open>done\<close>. \<open>UserStop\<close> is a call of \<open>stop()\<close> while the fetch or the read
  is pending: if it aborts the signal, the pending promise rejects with an
  \<open>AbortError\<close>, and otherwise the transport goes on.
\<close>

datatype read_step = Value "byte list" | ReadRejects js_error | UserStop

record response =
  ok :: bool
  statusText :: jsstring
  body :: "read_step list option"

datatype fetch_step = Responds response | FetchRejects js_error | StopThen fetch_step

record hook_env =
  user_id :: jsstring
  assistant_id :: jsstring
  fetch :: fetch_step

definition AbortError :: js_error where
  "AbortError = JsError (lit ''AbortError'') (lit ''The operation was aborted.'')"

definition stop :: "hook_state \<Rightarrow> hook_state" where
  "stop st =
     (case abortControllerRef st of
        None \<Rightarrow> st
      | Some c \<Rightarrow> st\<lparr>signal_aborted := True, abortControllerRef := None\<rparr>)"

text \<open>How the \<open>try\<close> block ends: normally, by a throw, or with a state updater that
  threw while React applied it (which no \<open>catch\<close> of the handler sees).\<close>

datatype 'a outcome = Completed 'a | Threw js_error 'a | UpdaterThrew js_error

text \<open>The updater of the first chunk.\<close>

definition add_assistant :: "jsstring \<Rightarrow> jsstring \<Rightarrow> uimessage list \<Rightarrow> uimessage list" where
  "add_assistant new_id chunk prev =
     prev @ [\<lparr>ui_id = new_id, ui_role = Assistant,
              parts = [Part (Some (lit ''text'')) [] chunk]\<rparr>]"

text \<open>
  The updater of every later chunk. \<open>lastMessage.parts\<close> is an array, so its
  \<open>text\<close> property is \<open>undefined\<close>, and spreading it into the new part copies its
  elements under their indices.
\<close>

definition parts_text :: "part list \<Rightarrow> jsvalue" where
  "parts_text ps = JUndefined"

definition append_chunk :: "jsstring \<Rightarrow> uimessage list \<Rightarrow> js_error + uimessage list" where
  "append_chunk chunk prev =
     (case rev prev of
        [] \<Rightarrow> Inl (TypeError ''Cannot read properties of undefined'')
      | lastMessage # _ \<Rightarrow>
          (let updatedText = ToString (parts_text (parts lastMessage)) @ chunk;
               updatedLastMessage =
                 lastMessage\<lparr>parts := [Part None (parts lastMessage) updatedText]\<rparr>
           in Inr (butlast prev @ [updatedLastMessage])))"

fun read_loop :: "jsstring \<Rightarrow> bool \<Rightarrow> text_decoder \<Rightarrow> read_step list \<Rightarrow> hook_state
    \<Rightarrow> hook_state outcome" where
  "read_loop new_id isFirstChunk decoder [] st = Completed st"
| "read_loop new_id isFirstChunk decoder (ReadRejects e # rest) st = Threw e st"
| "read_loop new_id isFirstChunk decoder (UserStop # rest) st =
     (let st' = stop st
      in if signal_aborted st' then Threw AbortError st'
         else read_loop new_id isFirstChunk decoder rest st')"
| "read_loop new_id isFirstChunk decoder (Value v # rest) st =
     (let (chunk, decoder') = decode True decoder v
      in if isFirstChunk then
           read_loop new_id False decoder' rest
             (st\<lparr>messages := add_assistant new_id chunk (messages st)\<rparr>)
         else
           (case append_chunk chunk (messages st) of
              Inl e \<Rightarrow> UpdaterThrew e
            | Inr ms \<Rightarrow> read_loop new_id False decoder' rest (st\<lparr>messages := ms\<rparr>)))"

text \<open>The \<open>try\<close> block: the fetch, the check of the response, the read loop.\<close>

fun try_block :: "jsstring \<Rightarrow> fetch_step \<Rightarrow> hook_state \<Rightarrow> hook_state outcome" where
  "try_block new_id (FetchRejects e) st = Threw e st"
| "try_block new_id (StopThen f) st =
     (let st' = stop st
      in if signal_aborted st' then Threw AbortError st'
         else try_block new_id f st')"
| "try_block new_id (Responds r) st =
     (case body r of
        None \<Rightarrow>
          Threw (JsError (lit ''Error'')
            (if statusText r = [] then lit ''Failed to fetch stream'' else statusText r)) st
      | Some reads \<Rightarrow>
          if \<not> ok r then
            Threw (JsError (lit ''Error'')
              (if statusText r = [] then lit ''Failed to fetch stream'' else statusText r)) st
          else read_loop new_id True new_TextDecoder reads st)"

definition catch_block :: "js_error \<Rightarrow> hook_state \<Rightarrow> hook_state" where
  "catch_block err st =
     (if err_name err \<noteq> lit ''AbortError'' then st\<lparr>error := Some err\<rparr> else st)"

definition finally_block :: "hook_state \<Rightarrow> hook_state" where
  "finally_block st = st\<lparr>isLoading := False, abortControllerRef := None\<rparr>"

text \<open>
  \<open>handleSubmit\<close>. \<open>Inl\<close> is the case of a state updater that threw, which leaves
  the handler's \<open>try\<close> untouched and reaches React's rendering.
\<close>

definition handleSubmit :: "hook_env \<Rightarrow> hook_state \<Rightarrow> js_error + hook_state" where
  "handleSubmit env st =
     (if trim (input st) = [] then Inr st
      else
        (let userMessage = \<lparr>ui_id = user_id env, ui_role = User,
                             parts = [Part (Some (lit ''text'')) [] (input st)]\<rparr>;
             newMessages = messages st @ [userMessage];
             st1 = st\<lparr>messages := newMessages, input := [], isLoading := True,
                      error := None, abortControllerRef := Some AbortController,
                      signal_aborted := False,
                      requests := requests st @ [newMessages]\<rparr>
         in case try_block (assistant_id env) (fetch env) st1 of
              Completed st2 \<Rightarrow> Inr (finally_block st2)
            | Threw err st2 \<Rightarrow> Inr (finally_block (catch_block err st2))
            | UpdaterThrew err \<Rightarrow> Inl err))"

section \<open>Chatbot: the NDJSON stream\<close>

record chat_message =
  msg_id :: jsstring
  content :: jsstring
  msg_role :: role
  timestamp :: nat
  isStreaming :: "bool option"

text \<open>
  The state of the component, and the \<open>query\<close> and \<open>sessionId\<close> of the requests
  it has sent.
\<close>

record chat_state =
  chat_messages :: "chat_message list"
  inputMessage :: jsstring
  isTyping :: bool
  sessionId :: jsstring
  sent :: "(jsstring \<times> jsstring) list"

datatype chat_read = ReadValue "byte list" | ReadFails js_error

record chat_response =
  resp_ok :: bool
  resp_body :: "chat_read list option"

datatype chat_fetch = Resolves chat_response | Rejects js_error

text \<open>The two identifiers and the two dates that one call draws, and what the
  transport does.\<close>

record chat_env =
  nanoid1 :: jsstring
  nanoid2 :: jsstring
  userTime :: nat
  botTime :: nat
  transport :: chat_fetch

text \<open>\<open>JSON.parse\<close> belongs to the platform; the component is modelled for any
  function that returns a value or throws.\<close>

type_synonym parser = "jsstring \<Rightarrow> js_error + jsvalue"

text \<open>\<open>chunk.split("\n").filter((line) => line.trim())\<close>\<close>

definition frame_lines :: "jsstring \<Rightarrow> jsstring list" where
  "frame_lines chunk = filter (\<lambda>line. trim line \<noteq> []) (split_nl chunk)"

definition set_content :: "jsstring \<Rightarrow> jsstring \<Rightarrow> chat_message list \<Rightarrow> chat_message list" where
  "set_content botMessageId text prev =
     map (\<lambda>msg. if msg_id msg = botMessageId then msg\<lparr>content := text\<rparr> else msg) prev"

definition stop_streaming :: "jsstring \<Rightarrow> chat_message list \<Rightarrow> chat_message list" where
  "stop_streaming botMessageId prev =
     map (\<lambda>msg. if msg_id msg = botMessageId then msg\<lparr>isStreaming := Some False\<rparr> else msg) prev"

text \<open>
  The body of the inner \<open>try\<close> for one line, on the accumulated response and the
  messages. The \<open>complete\<close> branch only writes to the console, after reading
  \<open>data.data.finishReason\<close>.
\<close>

definition line_body :: "parser \<Rightarrow> jsstring \<Rightarrow> jsstring \<Rightarrow> jsstring \<times> chat_message list
    \<Rightarrow> js_error + jsstring \<times> chat_message list" where
  "line_body parse botMessageId line s =
     (case parse line of
        Inl e \<Rightarrow> Inl e
      | Inr data \<Rightarrow>
          (case get_prop data ''type'' of
             Inl e \<Rightarrow> Inl e
           | Inr t \<Rightarrow>
               if t = JString (lit ''chunk'') then
                 (case get_prop data ''data'' of
                    Inl e \<Rightarrow> Inl e
                  | Inr d \<Rightarrow>
                      (let accumulatedResponse = fst s @ ToString d
                       in Inr (accumulatedResponse,
                               set_content botMessageId accumulatedResponse (snd s))))
               else if t = JString (lit ''complete'') then
                 (case get_prop data ''data'' of
                    Inl e \<Rightarrow> Inl e
                  | Inr d \<Rightarrow>
                      (case get_prop d ''finishReason'' of
                         Inl e \<Rightarrow> Inl e
                       | Inr r \<Rightarrow> Inr s))
               else Inr s))"

text \<open>The inner \<open>catch\<close> writes to the console and goes on.\<close>

definition process_line :: "parser \<Rightarrow> jsstring \<Rightarrow> jsstring \<Rightarrow> jsstring \<times> chat_message list
    \<Rightarrow> jsstring \<times> chat_message list" where
  "process_line parse botMessageId line s =
     (case line_body parse botMessageId line s of Inl e \<Rightarrow> s | Inr s' \<Rightarrow> s')"

fun for_lines :: "parser \<Rightarrow> jsstring \<Rightarrow> jsstring list \<Rightarrow> jsstring \<times> chat_message list
    \<Rightarrow> jsstring \<times> chat_message list" where
  "for_lines parse botMessageId [] s = s"
| "for_lines parse botMessageId (line # lines) s =
     for_lines parse botMessageId lines (process_line parse botMessageId line s)"

text \<open>The read loop: the error it threw, if any, and the state it reached.\<close>

fun chat_loop :: "parser \<Rightarrow> jsstring \<Rightarrow> text_decoder \<Rightarrow> chat_read list
    \<Rightarrow> jsstring \<times> chat_message list \<Rightarrow> js_error option \<times> jsstring \<times> chat_message list" where
  "chat_loop parse botMessageId decoder [] s = (None, s)"
| "chat_loop parse botMessageId decoder (ReadFails e # rest) s = (Some e, s)"
| "chat_loop parse botMessageId decoder (ReadValue v # rest) s =
     (let (chunk, decoder') = decode False decoder v;
          lines = frame_lines chunk
      in chat_loop parse botMessageId decoder' rest (for_lines parse botMessageId lines s))"

definition chat_try :: "parser \<Rightarrow> jsstring \<Rightarrow> chat_fetch \<Rightarrow> chat_message list
    \<Rightarrow> js_error option \<times> chat_message list" where
  "chat_try parse botMessageId f prev =
     (case f of
        Rejects e \<Rightarrow> (Some e, prev)
      | Resolves r \<Rightarrow>
          (case resp_body r of
             None \<Rightarrow> (Some (JsError (lit ''Error'') (lit ''Failed to fetch bot response'')), prev)
           | Some reads \<Rightarrow>
               if \<not> resp_ok r then
                 (Some (JsError (lit ''Error'') (lit ''Failed to fetch bot response'')), prev)
               else
                 (let (thrown, s) = chat_loop parse botMessageId new_TextDecoder reads ([], prev)
                  in (thrown, snd s))))"

definition fallback :: jsstring where
  "fallback = lit ''Sorry, something went wrong. Please try again.''"

definition handleSendMessage :: "parser \<Rightarrow> chat_env \<Rightarrow> chat_state \<Rightarrow> chat_state" where
  "handleSendMessage parse env st =
     (let textToSend = trim (inputMessage st)
      in if textToSend = [] \<or> isTyping st then st
         else
           (let userMessage = \<lparr>msg_id = nanoid1 env, content = textToSend,
                                msg_role = User, timestamp = userTime env,
                                isStreaming = None\<rparr>;
                botMessage = \<lparr>msg_id = nanoid2 env, content = [],
                               msg_role = Assistant, timestamp = botTime env,
                               isStreaming = Some True\<rparr>;
                prev = chat_messages st @ [userMessage] @ [botMessage];
                (thrown, prev1) = chat_try parse (nanoid2 env) (transport env) prev;
                prev2 = (case thrown of
                           None \<Rightarrow> prev1
                         | Some e \<Rightarrow> set_content (nanoid2 env) fallback prev1)
            in st\<lparr>chat_messages := stop_streaming (nanoid2 env) prev2,
                  inputMessage := [], isTyping := False,
                  sent := sent st @ [(textToSend, sessionId st)]\<rparr>))"

section \<open>The wire format and the scenarios\<close>

text \<open>
  The events of the wire format, as the specification lists them: a chunk carries a
  string, a completion carries an object with a string \<open>finishReason\<close>, and every
  other line is malformed.
\<close>

datatype stream_event = ChunkEvent jsstring | CompleteEvent jsstring | MalformedEvent

fun wire_event :: "jsvalue \<Rightarrow> stream_event" where
  "wire_event (JObject kvs) =
     (if map_of kvs (lit ''type'') = Some (JString (lit ''chunk'')) then
        (case map_of kvs (lit ''data'') of
           Some (JString t) \<Rightarrow> ChunkEvent t
         | _ \<Rightarrow> MalformedEvent)
      else if map_of kvs (lit ''type'') = Some (JString (lit ''complete'')) then
        (case map_of kvs (lit ''data'') of
           Some (JObject d) \<Rightarrow>
             (case map_of d (lit ''finishReason'') of
                Some (JString r) \<Rightarrow> CompleteEvent r
              | _ \<Rightarrow> MalformedEvent)
         | _ \<Rightarrow> MalformedEvent)
      else MalformedEvent)"
| "wire_event v = MalformedEvent"

definition line_event :: "parser \<Rightarrow> jsstring \<Rightarrow> stream_event" where
  "line_event parse line =
     (case parse line of Inl e \<Rightarrow> MalformedEvent | Inr v \<Rightarrow> wire_event v)"

definition event_text :: "stream_event \<Rightarrow> jsstring" where
  "event_text ev = (case ev of ChunkEvent t \<Rightarrow> t | _ \<Rightarrow> [])"

text \<open>The text of one read when every call of \<open>decode\<close> flushes, and the lines
  that the NDJSON loop takes from a sequence of reads.\<close>

definition decode_text :: "byte list \<Rightarrow> jsstring" where
  "decode_text v = fst (decode False new_TextDecoder v)"

definition lines_of_reads :: "byte list list \<Rightarrow> jsstring list" where
  "lines_of_reads vs = concat (map (\<lambda>v. frame_lines (decode_text v)) vs)"

text \<open>ASCII bytes of a literal.\<close>

definition ascii :: "string \<Rightarrow> byte list" where
  "ascii s = map of_char s"

text \<open>
  What \<open>JSON.parse\<close> returns on the lines of the scenarios; the other lines that the
  scenarios give it are fragments of a record, on which it throws.
\<close>

definition chunk_object :: "string \<Rightarrow> jsvalue" where
  "chunk_object t = JObject [(lit ''type'', JString (lit ''chunk'')), (lit ''data'', JString (lit t))]"

definition scenario_parse :: parser where
  "scenario_parse line =
     (if line = lit ''{\"type\":\"chunk\",\"data\":\"Hel\"}'' then Inr (chunk_object ''Hel'')
      else if line = lit ''{\"type\":\"chunk\",\"data\":\"lo\"}'' then Inr (chunk_object ''lo'')
      else if line = lit ''{\"type\":\"chunk\",\"data\":\"x\"}'' then Inr (chunk_object ''x'')
      else if line = lit ''{\"type\":\"complete\",\"data\":{\"finishReason\":\"stop\"}}'' then
        Inr (JObject [(lit ''type'', JString (lit ''complete'')),
                      (lit ''data'', JObject [(lit ''finishReason'', JString (lit ''stop''))])])
      else if line = lit ''{\"type\":\"chunk\"}'' then
        Inr (JObject [(lit ''type'', JString (lit ''chunk''))])
      else Inl (JsError (lit ''SyntaxError'') (lit ''Unexpected token'')))"

text \<open>The component after the user typed \<open>hi\<close>, and a call whose response is a
  stream of the given reads.\<close>

definition chat_ready :: chat_state where
  "chat_ready =
     \<lparr>chat_messages =
        [\<lparr>msg_id = lit ''1'', content = lit ''Hello! How can I help you today?'',
          msg_role = Assistant, timestamp = 0, isStreaming = None\<rparr>],
      inputMessage = lit ''hi'', isTyping = False, sessionId = lit ''s1'', sent = []\<rparr>"

definition chat_call :: "chat_fetch \<Rightarrow> chat_env" where
  "chat_call f = \<lparr>nanoid1 = lit ''u1'', nanoid2 = lit ''b1'', userTime = 1, botTime = 2,
                  transport = f\<rparr>"

definition chat_stream :: "byte list list \<Rightarrow> chat_fetch" where
  "chat_stream vs = Resolves \<lparr>resp_ok = True, resp_body = Some (map ReadValue vs)\<rparr>"

text \<open>The hook after the user typed \<open>hi\<close>, and a call with the given fetch.\<close>

definition hook_ready :: hook_state where
  "hook_ready =
     \<lparr>messages = [], input = lit ''hi'', isLoading = False, error = None,
      abortControllerRef = None, signal_aborted = False, requests = []\<rparr>"

definition hook_call :: "fetch_step \<Rightarrow> hook_env" where
  "hook_call f = \<lparr>user_id = lit ''u1'', assistant_id = lit ''a1'', fetch = f\<rparr>"

definition raw_stream :: "read_step list \<Rightarrow> fetch_step" where
  "raw_stream reads = Responds \<lparr>ok = True, statusText = lit ''OK'', body = Some reads\<rparr>"

section \<open>What one line does\<close>

text \<open>
  Whether a line reaches the \<open>chunk\<close> branch of the loop, and the text that it
  appends there, if any. Both are read off \<open>line_body\<close>.
\<close>

definition takes_chunk_branch :: "parser \<Rightarrow> jsstring \<Rightarrow> bool" where
  "takes_chunk_branch parse line =
     (case parse line of
        Inl e \<Rightarrow> False
      | Inr v \<Rightarrow> get_prop v ''type'' = Inr (JString (lit ''chunk'')))"

definition line_delta :: "parser \<Rightarrow> jsstring \<Rightarrow> jsstring option" where
  "line_delta parse line =
     (case parse line of
        Inl e \<Rightarrow> None
      | Inr v \<Rightarrow>
          if get_prop v ''type'' = Inr (JString (lit ''chunk'')) then
            (case get_prop v ''data'' of Inl e \<Rightarrow> None | Inr d \<Rightarrow> Some (ToString d))
          else None)"

definition appended :: "parser \<Rightarrow> jsstring list \<Rightarrow> jsstring" where
  "appended parse ls =
     concat (map (\<lambda>l. case line_delta parse l of None \<Rightarrow> [] | Some t \<Rightarrow> t) ls)"


definition late_chunk_reads :: "byte list list" where
  "late_chunk_reads =
     [ascii ''{\"type\":\"chunk\",\"data\":\"Hel\"}\<newline>'',
      ascii ''{\"type\":\"complete\",\"data\":{\"finishReason\":\"stop\"}}\<newline>'',
      ascii ''{\"type\":\"chunk\",\"data\":\"lo\"}\<newline>'']"







definition accent_reads :: "byte list list" where
  "accent_reads =
     [ascii ''{\"type\":\"chunk\",\"data\":\"'' @ [0xC3], [0xA9] @ ascii ''\"}\<newline>'']"

text \<open>An exception that is not an abort.\<close>

definition network_error :: js_error where
  "network_error = JsError (lit ''TypeError'') (lit ''Failed to fetch'')"

section \<open>Evaluation and helper lemmas\<close>

lemmas decode_defs = decode_def new_TextDecoder_def utf8_handler_def utf8_first_def
  utf8_init_def utf8_end_def utf16_def Let_def

lemma all_dropWhile: "(\<forall>x\<in>set (dropWhile P xs). P x) \<longleftrightarrow> (\<forall>x\<in>set xs. P x)"
  by (induction xs) auto

lemma trim_empty_iff: "trim s = [] \<longleftrightarrow> list_all is_space s"
  by (simp add: trim_def dropWhile_eq_Nil_conv all_dropWhile list_all_iff)

section \<open>The raw text stream appends to the wrong property\<close>

text \<open>The first chunk makes the assistant message; every later chunk replaces its
  parts by one part whose text is \<open>"undefined"\<close> followed by the chunk.\<close>

lemma first_chunk_creates_message:
  "read_loop new_id True decoder [Value v] st =
     Completed (st\<lparr>messages := messages st @
       [\<lparr>ui_id = new_id, ui_role = Assistant,
         parts = [Part (Some (lit ''text'')) [] (fst (decode True decoder v))]\<rparr>]\<rparr>)"
  by (simp add: add_assistant_def split: prod.splits)

lemma later_chunk_loses_text:
  "append_chunk chunk (ms @ [m]) =
     Inr (ms @ [m\<lparr>parts := [Part None (parts m) (lit ''undefined'' @ chunk)]\<rparr>])"
  by (simp add: append_chunk_def parts_text_def)

text \<open>
  C1. In raw-text mode the first chunk makes a new assistant message whose text is the
  chunk, and every later chunk should be appended to that text, so that the chunks
  \<open>"Hi "\<close> and \<open>"there"\<close> end as \<open>"Hi there"\<close>. The hook does the first, but
  not the second: the later updater reads \<open>text\<close> from the array of parts instead of
  from a part. On the two chunks the message ends with one part whose text is
  \<open>"undefinedthere"\<close>, and the part of the first chunk sits under the name \<open>0\<close>.
\<close>

theorem raw_two_chunks:
  "map_sum id messages
     (handleSubmit (hook_call (raw_stream [Value (ascii ''Hi ''), Value (ascii ''there'')]))
        hook_ready) =
   Inr [\<lparr>ui_id = lit ''u1'', ui_role = User,
          parts = [Part (Some (lit ''text'')) [] (lit ''hi'')]\<rparr>,
        \<lparr>ui_id = lit ''a1'', ui_role = Assistant,
          parts = [Part None [Part (Some (lit ''text'')) [] (lit ''Hi '')]
                     (lit ''undefinedthere'')]\<rparr>]"
  by (simp add: handleSubmit_def hook_ready_def hook_call_def raw_stream_def trim_def
      is_space_def decode_defs ascii_def lit_def add_assistant_def append_chunk_def
      parts_text_def finally_block_def)

section \<open>Submitting nothing\<close>

text \<open>
  C10. A submit whose input is empty or consists of white space only changes nothing,
  in the hook and in the component; in the component the same holds while a response is
  streaming. The state includes the list of requests sent, so no request is issued.
\<close>

theorem blank_submit_is_noop:
  "(list_all is_space (input st) \<longrightarrow> handleSubmit env st = Inr st) \<and>
   (list_all is_space (inputMessage cst) \<or> isTyping cst \<longrightarrow>
      handleSendMessage parse cenv cst = cst)"
  by (simp add: handleSubmit_def handleSendMessage_def trim_empty_iff)

theorem blank_submit_is_noop_witness:
  "list_all is_space (lit '' '') \<and>
   handleSubmit (hook_call (raw_stream [])) (hook_ready\<lparr>input := lit '' ''\<rparr>)
     = Inr (hook_ready\<lparr>input := lit '' ''\<rparr>) \<and>
   isTyping (chat_ready\<lparr>isTyping := True\<rparr>) \<and>
   handleSendMessage scenario_parse (chat_call (chat_stream [])) (chat_ready\<lparr>isTyping := True\<rparr>)
     = chat_ready\<lparr>isTyping := True\<rparr>"
  using blank_submit_is_noop [of "hook_ready\<lparr>input := lit '' ''\<rparr>" "hook_call (raw_stream [])"
      "chat_ready\<lparr>isTyping := True\<rparr>" scenario_parse "chat_call (chat_stream [])"]
  by (simp add: hook_ready_def lit_def is_space_def)

section \<open>The NDJSON loop\<close>


lemma decode_flush_fresh:
  "\<not> do_not_flush td \<Longrightarrow> decode False td v = decode False new_TextDecoder v"
  by (simp add: decode_def new_TextDecoder_def)

lemma decode_flush_flag: "decode False td v = (s, td') \<Longrightarrow> \<not> do_not_flush td'"
  by (auto simp: decode_def Let_def split: prod.splits)

lemma for_lines_append:
  "for_lines parse b (xs @ ys) s = for_lines parse b ys (for_lines parse b xs s)"
  by (induction xs arbitrary: s) simp_all

lemma chat_loop_values:
  "\<not> do_not_flush td \<Longrightarrow>
   chat_loop parse b td (map ReadValue vs) s = (None, for_lines parse b (lines_of_reads vs) s)"
proof (induction vs arbitrary: td s)
  case Nil
  then show ?case by (simp add: lines_of_reads_def)
next
  case (Cons v vs)
  obtain chunk td' where d: "decode False td v = (chunk, td')"
    by (cases "decode False td v")
  with Cons.prems have chunk: "chunk = decode_text v"
    by (simp add: decode_flush_fresh decode_text_def)
  from d have "\<not> do_not_flush td'" by (rule decode_flush_flag)
  then have "chat_loop parse b td' (map ReadValue vs) (for_lines parse b (frame_lines chunk) s)
      = (None, for_lines parse b (lines_of_reads vs) (for_lines parse b (frame_lines chunk) s))"
    by (rule Cons.IH)
  with d chunk show ?case
    by (simp add: lines_of_reads_def for_lines_append)
qed

lemma process_line_delta:
  "process_line parse b l s =
     (case line_delta parse l of
        None \<Rightarrow> s
      | Some t \<Rightarrow> (fst s @ t, set_content b (fst s @ t) (snd s)))"
  by (auto simp: process_line_def line_body_def line_delta_def Let_def
      split: sum.splits)

lemma line_event_ChunkD:
  assumes "line_event parse l = ChunkEvent t"
  shows "\<exists>kvs. parse l = Inr (JObject kvs) \<and>
           map_of kvs (lit ''type'') = Some (JString (lit ''chunk'')) \<and>
           map_of kvs (lit ''data'') = Some (JString t)"
proof (cases "parse l")
  case (Inl e)
  with assms show ?thesis by (simp add: line_event_def)
next
  case (Inr v)
  with assms have "wire_event v = ChunkEvent t" by (simp add: line_event_def)
  then show ?thesis using Inr
    by (cases v) (auto split: if_splits option.splits jsvalue.splits)
qed

lemma line_event_CompleteD:
  assumes "line_event parse l = CompleteEvent r"
  shows "\<exists>kvs. parse l = Inr (JObject kvs) \<and>
           map_of kvs (lit ''type'') = Some (JString (lit ''complete''))"
proof (cases "parse l")
  case (Inl e)
  with assms show ?thesis by (simp add: line_event_def)
next
  case (Inr v)
  with assms have "wire_event v = CompleteEvent r" by (simp add: line_event_def)
  then show ?thesis using Inr
    by (cases v) (auto split: if_splits option.splits jsvalue.splits)
qed

lemma line_delta_chunk: "line_event parse l = ChunkEvent t \<Longrightarrow> line_delta parse l = Some t"
  by (auto simp: line_delta_def dest!: line_event_ChunkD)

lemma line_delta_complete: "line_event parse l = CompleteEvent r \<Longrightarrow> line_delta parse l = None"
  by (auto simp: line_delta_def lit_def dest!: line_event_CompleteD)

lemma last_set_content:
  "ms \<noteq> [] \<Longrightarrow> msg_id (last ms) = b \<Longrightarrow> last (set_content b t ms) = (last ms)\<lparr>content := t\<rparr>"
  by (simp add: set_content_def last_map)

lemma last_stop_streaming:
  "ms \<noteq> [] \<Longrightarrow> msg_id (last ms) = b \<Longrightarrow>
   last (stop_streaming b ms) = (last ms)\<lparr>isStreaming := Some False\<rparr>"
  by (simp add: stop_streaming_def last_map)

lemma for_lines_last:
  assumes "ms \<noteq> []" "msg_id (last ms) = b" "content (last ms) = acc"
  shows "fst (for_lines parse b ls (acc, ms)) = acc @ appended parse ls \<and>
         snd (for_lines parse b ls (acc, ms)) \<noteq> [] \<and>
         last (snd (for_lines parse b ls (acc, ms))) = (last ms)\<lparr>content := acc @ appended parse ls\<rparr>"
  using assms
proof (induction ls arbitrary: acc ms)
  case Nil
  then show ?case by (simp add: appended_def)
next
  case (Cons l ls)
  show ?case
  proof (cases "line_delta parse l")
    case None
    then have "process_line parse b l (acc, ms) = (acc, ms)"
      by (simp add: process_line_delta)
    with Cons.IH [OF Cons.prems] None show ?thesis
      by (simp add: appended_def)
  next
    case (Some t)
    let ?ms = "set_content b (acc @ t) ms"
    have step: "process_line parse b l (acc, ms) = (acc @ t, ?ms)"
      using Some by (simp add: process_line_delta)
    have ne: "?ms \<noteq> []" using Cons.prems(1) by (simp add: set_content_def)
    have l: "last ?ms = (last ms)\<lparr>content := acc @ t\<rparr>"
      using Cons.prems by (simp add: last_set_content)
    have "fst (for_lines parse b ls (acc @ t, ?ms)) = (acc @ t) @ appended parse ls \<and>
          snd (for_lines parse b ls (acc @ t, ?ms)) \<noteq> [] \<and>
          last (snd (for_lines parse b ls (acc @ t, ?ms)))
            = (last ?ms)\<lparr>content := (acc @ t) @ appended parse ls\<rparr>"
      using ne l Cons.prems(2) by (intro Cons.IH) simp_all
    with step l Some show ?thesis
      by (simp add: appended_def)
  qed
qed

lemma appended_well_formed:
  "list_all (\<lambda>l. line_event parse l \<noteq> MalformedEvent) ls \<Longrightarrow>
   appended parse ls = concat (map (\<lambda>l. event_text (line_event parse l)) ls)"
proof (induction ls)
  case Nil
  then show ?case by (simp add: appended_def)
next
  case (Cons l ls)
  then have IH: "appended parse ls = concat (map (\<lambda>l. event_text (line_event parse l)) ls)"
    by simp
  from Cons.prems have "line_event parse l \<noteq> MalformedEvent" by simp
  then have "(case line_delta parse l of None \<Rightarrow> [] | Some t \<Rightarrow> t) = event_text (line_event parse l)"
    by (cases "line_event parse l")
       (simp_all add: line_delta_chunk line_delta_complete event_text_def)
  with IH show ?case by (simp add: appended_def)
qed

text \<open>The handler on a successful response whose reads all give bytes.\<close>

lemma handleSendMessage_stream:
  assumes "\<not> list_all is_space (inputMessage st)" "\<not> isTyping st"
    and "transport env = Resolves \<lparr>resp_ok = True, resp_body = Some (map ReadValue vs)\<rparr>"
  shows "last (chat_messages (handleSendMessage parse env st)) =
           \<lparr>msg_id = nanoid2 env, content = appended parse (lines_of_reads vs),
            msg_role = Assistant, timestamp = botTime env, isStreaming = Some False\<rparr> \<and>
         isTyping (handleSendMessage parse env st) = False"
proof -
  let ?user = "\<lparr>msg_id = nanoid1 env, content = trim (inputMessage st),
                msg_role = User, timestamp = userTime env, isStreaming = None\<rparr>"
  let ?bot = "\<lparr>msg_id = nanoid2 env, content = [], msg_role = Assistant,
               timestamp = botTime env, isStreaming = Some True\<rparr>"
  let ?prev = "chat_messages st @ [?user] @ [?bot]"
  let ?r = "for_lines parse (nanoid2 env) (lines_of_reads vs) ([], ?prev)"
  have f: "snd ?r \<noteq> [] \<and> last (snd ?r) = (last ?prev)\<lparr>content := [] @ appended parse (lines_of_reads vs)\<rparr>"
    using for_lines_last [of ?prev "nanoid2 env" "[]" parse "lines_of_reads vs"] by simp
  have t: "chat_try parse (nanoid2 env) (transport env) ?prev = (None, snd ?r)"
    using assms(3) by (simp add: chat_try_def chat_loop_values new_TextDecoder_def)
  have "msg_id (last (snd ?r)) = nanoid2 env" using f by simp
  then have "last (stop_streaming (nanoid2 env) (snd ?r)) = (last (snd ?r))\<lparr>isStreaming := Some False\<rparr>"
    using f by (simp add: last_stop_streaming)
  with f t assms(1,2) show ?thesis
    by (simp add: handleSendMessage_def trim_empty_iff Let_def)
qed


lemma line_delta_skip: "\<not> takes_chunk_branch parse l \<Longrightarrow> line_delta parse l = None"
  by (auto simp: takes_chunk_branch_def line_delta_def split: sum.splits)

lemma appended_skip:
  "list_all (\<lambda>l. \<not> takes_chunk_branch parse l) ls \<Longrightarrow> appended parse ls = []"
  by (induction ls) (simp_all add: appended_def line_delta_skip)

lemma appended_Cons:
  "appended parse (l # ls) = (case line_delta parse l of None \<Rightarrow> [] | Some t \<Rightarrow> t) @ appended parse ls"
  by (simp add: appended_def)

lemma appended_append: "appended parse (xs @ ys) = appended parse xs @ appended parse ys"
  by (simp add: appended_def)

lemma process_line_skip:
  "\<not> takes_chunk_branch parse l \<Longrightarrow> process_line parse b l s = s"
  by (simp add: process_line_delta line_delta_skip)

lemma complete_not_chunk:
  "line_event parse l = CompleteEvent r \<Longrightarrow> \<not> takes_chunk_branch parse l"
  by (auto simp: takes_chunk_branch_def lit_def dest!: line_event_CompleteD)

section \<open>Well-formed events accumulate\<close>








section \<open>A completion event does not close the stream\<close>

text \<open>
  C4. The claim is that a chunk event that arrives after a \<open>complete\<close> event is
  discarded. The loop keeps no record of the completion: its \<open>complete\<close> branch only
  writes to the console. What holds is that a completion event changes neither the
  accumulated text nor the messages, and that the chunk events after it are appended like
  those before it; the message stops streaming when the stream ends.
\<close>

theorem chunk_after_complete_is_applied:
  assumes "\<not> list_all is_space (inputMessage st)" and "\<not> isTyping st"
    and "transport env = Resolves \<lparr>resp_ok = True, resp_body = Some (map ReadValue vs)\<rparr>"
    and "lines_of_reads vs = before @ l # after"
    and "line_event parse l = CompleteEvent r"
    and "list_all (\<lambda>l. line_event parse l \<noteq> MalformedEvent) (before @ after)"
  shows "process_line parse (nanoid2 env) l s = s \<and>
         last (chat_messages (handleSendMessage parse env st)) =
           \<lparr>msg_id = nanoid2 env,
            content = concat (map (\<lambda>l. event_text (line_event parse l)) before) @
                      concat (map (\<lambda>l. event_text (line_event parse l)) after),
            msg_role = Assistant, timestamp = botTime env, isStreaming = Some False\<rparr>"
proof -
  have skip: "process_line parse (nanoid2 env) l s = s"
    using assms(5) by (simp add: process_line_skip complete_not_chunk)
  have "appended parse (lines_of_reads vs) = appended parse (before @ after)"
    using assms(4,5) by (simp add: appended_append appended_Cons line_delta_complete)
  also have "\<dots> = concat (map (\<lambda>l. event_text (line_event parse l)) (before @ after))"
    using assms(6) by (rule appended_well_formed)
  finally show ?thesis
    using handleSendMessage_stream [OF assms(1-3), of parse] skip by simp
qed

theorem chunk_after_complete_is_applied_witness:
  "\<not> list_all is_space (inputMessage chat_ready) \<and> \<not> isTyping chat_ready \<and>
   transport (chat_call (chat_stream late_chunk_reads))
     = Resolves \<lparr>resp_ok = True, resp_body = Some (map ReadValue late_chunk_reads)\<rparr> \<and>
   lines_of_reads late_chunk_reads =
     [lit ''{\"type\":\"chunk\",\"data\":\"Hel\"}''] @
     lit ''{\"type\":\"complete\",\"data\":{\"finishReason\":\"stop\"}}'' #
     [lit ''{\"type\":\"chunk\",\"data\":\"lo\"}''] \<and>
   line_event scenario_parse (lit ''{\"type\":\"complete\",\"data\":{\"finishReason\":\"stop\"}}'')
     = CompleteEvent (lit ''stop'') \<and>
   list_all (\<lambda>l. line_event scenario_parse l \<noteq> MalformedEvent)
     ([lit ''{\"type\":\"chunk\",\"data\":\"Hel\"}''] @ [lit ''{\"type\":\"chunk\",\"data\":\"lo\"}'']) \<and>
   process_line scenario_parse (lit ''b1'')
     (lit ''{\"type\":\"complete\",\"data\":{\"finishReason\":\"stop\"}}'') (lit ''Hel'', [])
     = (lit ''Hel'', []) \<and>
   last (chat_messages
       (handleSendMessage scenario_parse (chat_call (chat_stream late_chunk_reads)) chat_ready)) =
     \<lparr>msg_id = lit ''b1'', content = lit ''Hello'', msg_role = Assistant, timestamp = 2,
      isStreaming = Some False\<rparr>"
proof -
  let ?hel = "lit ''{\"type\":\"chunk\",\"data\":\"Hel\"}''"
  let ?lo = "lit ''{\"type\":\"chunk\",\"data\":\"lo\"}''"
  let ?done = "lit ''{\"type\":\"complete\",\"data\":{\"finishReason\":\"stop\"}}''"
  have h1: "\<not> list_all is_space (inputMessage chat_ready)" by code_simp
  have h2: "\<not> isTyping chat_ready" by code_simp
  have h3: "transport (chat_call (chat_stream late_chunk_reads))
     = Resolves \<lparr>resp_ok = True, resp_body = Some (map ReadValue late_chunk_reads)\<rparr>"
    by (simp add: chat_call_def chat_stream_def)
  have h4: "lines_of_reads late_chunk_reads = [?hel] @ ?done # [?lo]" by code_simp
  have h5: "line_event scenario_parse ?done = CompleteEvent (lit ''stop'')" by code_simp
  have h6: "list_all (\<lambda>l. line_event scenario_parse l \<noteq> MalformedEvent) ([?hel] @ [?lo])"
    by code_simp
  have c: "concat (map (\<lambda>l. event_text (line_event scenario_parse l)) [?hel]) @
           concat (map (\<lambda>l. event_text (line_event scenario_parse l)) [?lo]) = lit ''Hello''"
    by code_simp
  have e: "nanoid2 (chat_call (chat_stream late_chunk_reads)) = lit ''b1''"
    "botTime (chat_call (chat_stream late_chunk_reads)) = 2"
    by (simp_all add: chat_call_def)
  show ?thesis
    using chunk_after_complete_is_applied [OF h1 h2 h3 h4 h5 h6, of "(lit ''Hel'', [])"]
      h1 h2 h3 h4 h5 h6 c e
    by simp
qed

text \<open>
  A chunk that follows the completion is applied: the reads \<open>"Hel"\<close>, completion,
  \<open>"lo"\<close> end with the content \<open>"Hello"\<close>, not \<open>"Hel"\<close>.
\<close>

theorem late_chunk_counterexample:
  "line_event scenario_parse (lines_of_reads late_chunk_reads ! 1) = CompleteEvent (lit ''stop'') \<and>
   line_event scenario_parse (lines_of_reads late_chunk_reads ! 2) = ChunkEvent (lit ''lo'') \<and>
   content (last (chat_messages
       (handleSendMessage scenario_parse (chat_call (chat_stream late_chunk_reads)) chat_ready)))
     = lit ''Hello''"
  by code_simp

section \<open>Lines that are not chunks\<close>




section \<open>A stream without chunks\<close>

text \<open>
  C8. The claim is that a stream which ends without a chunk and without a completion
  event finalizes the assistant message as failed with the reason "empty stream". The
  component has no such case: the end of the stream is the normal exit of the loop. What
  holds is that when the stream ends and no line has reached the chunk branch, the
  assistant message keeps its empty content and stops streaming, and the component
  stops typing; nothing marks a failure.
\<close>

theorem stream_without_chunks_ends_empty:
  assumes "\<not> list_all is_space (inputMessage st)" and "\<not> isTyping st"
    and "transport env = Resolves \<lparr>resp_ok = True, resp_body = Some (map ReadValue vs)\<rparr>"
    and "list_all (\<lambda>l. \<not> takes_chunk_branch parse l) (lines_of_reads vs)"
  shows "last (chat_messages (handleSendMessage parse env st)) =
           \<lparr>msg_id = nanoid2 env, content = [], msg_role = Assistant,
            timestamp = botTime env, isStreaming = Some False\<rparr> \<and>
         isTyping (handleSendMessage parse env st) = False"
  using handleSendMessage_stream [OF assms(1-3), of parse] appended_skip [OF assms(4)]
  by simp

theorem stream_without_chunks_ends_empty_witness:
  "\<not> list_all is_space (inputMessage chat_ready) \<and> \<not> isTyping chat_ready \<and>
   transport (chat_call (chat_stream []))
     = Resolves \<lparr>resp_ok = True, resp_body = Some (map ReadValue [])\<rparr> \<and>
   list_all (\<lambda>l. \<not> takes_chunk_branch scenario_parse l) (lines_of_reads []) \<and>
   last (chat_messages (handleSendMessage scenario_parse (chat_call (chat_stream [])) chat_ready)) =
     \<lparr>msg_id = lit ''b1'', content = [], msg_role = Assistant, timestamp = 2,
      isStreaming = Some False\<rparr> \<and>
   isTyping (handleSendMessage scenario_parse (chat_call (chat_stream [])) chat_ready) = False"
proof -
  have h1: "\<not> list_all is_space (inputMessage chat_ready)" by code_simp
  have h2: "\<not> isTyping chat_ready" by code_simp
  have h3: "transport (chat_call (chat_stream []))
     = Resolves \<lparr>resp_ok = True, resp_body = Some (map ReadValue [])\<rparr>"
    by (simp add: chat_call_def chat_stream_def)
  have h4: "list_all (\<lambda>l. \<not> takes_chunk_branch scenario_parse l) (lines_of_reads [])"
    by (simp add: lines_of_reads_def)
  have e: "nanoid2 (chat_call (chat_stream [])) = lit ''b1''"
    "botTime (chat_call (chat_stream [])) = 2"
    by (simp_all add: chat_call_def)
  show ?thesis
    using stream_without_chunks_ends_empty [OF h1 h2 h3 h4] h1 h2 h3 h4 e by simp
qed

text \<open>
  The empty stream leaves a message with empty content that is not streaming; its
  content is not the text that the failure path writes.
\<close>

theorem empty_stream_counterexample:
  "last (chat_messages (handleSendMessage scenario_parse (chat_call (chat_stream [])) chat_ready)) =
     \<lparr>msg_id = lit ''b1'', content = [], msg_role = Assistant, timestamp = 2,
      isStreaming = Some False\<rparr> \<and>
   content (last (chat_messages
       (handleSendMessage scenario_parse (chat_call (chat_stream [])) chat_ready))) \<noteq> fallback"
  by code_simp

section \<open>Framing is per read\<close>








section \<open>A response that is not a stream\<close>









section \<open>Stopping the raw stream\<close>

lemma append_chunk_nonempty:
  assumes "prev \<noteq> []"
  shows "\<exists>ms. append_chunk chunk prev = Inr ms \<and> ms \<noteq> []"
proof (cases "rev prev")
  case Nil
  with assms show ?thesis by simp
next
  case (Cons lastMessage xs)
  then show ?thesis by (simp add: append_chunk_def Let_def)
qed

lemma stop_live:
  "abortControllerRef s = Some c \<Longrightarrow>
   stop s = s\<lparr>signal_aborted := True, abortControllerRef := None\<rparr>"
  by (simp add: stop_def)

text \<open>Reading values never throws, and leaves messages that are not empty.\<close>

lemma read_loop_values:
  "messages st \<noteq> [] \<Longrightarrow>
   \<exists>f' d' ms'. ms' \<noteq> [] \<and>
     (\<forall>rest. read_loop new_id f d (map Value vs @ rest) st =
        read_loop new_id f' d' rest (st\<lparr>messages := ms'\<rparr>))"
proof (induction vs arbitrary: f d st)
  case Nil
  have "\<forall>rest. read_loop new_id f d (map Value [] @ rest) st =
      read_loop new_id f d rest (st\<lparr>messages := messages st\<rparr>)"
    by simp
  with Nil show ?case by blast
next
  case (Cons v vs)
  obtain chunk d1 where dec: "decode True d v = (chunk, d1)"
    by (cases "decode True d v")
  show ?case
  proof (cases f)
    case True
    let ?st = "st\<lparr>messages := add_assistant new_id chunk (messages st)\<rparr>"
    have "messages ?st \<noteq> []" by (simp add: add_assistant_def)
    from Cons.IH [OF this, of False d1] obtain f' d' ms' where
      "ms' \<noteq> []" and
      "\<forall>rest. read_loop new_id False d1 (map Value vs @ rest) ?st =
         read_loop new_id f' d' rest (?st\<lparr>messages := ms'\<rparr>)"
      by blast
    with True dec have "ms' \<noteq> [] \<and>
      (\<forall>rest. read_loop new_id f d (map Value (v # vs) @ rest) st =
         read_loop new_id f' d' rest (st\<lparr>messages := ms'\<rparr>))"
      by simp
    then show ?thesis by blast
  next
    case False
    from append_chunk_nonempty [OF Cons.prems, of chunk] obtain ms where
      ac: "append_chunk chunk (messages st) = Inr ms" and "ms \<noteq> []"
      by blast
    let ?st = "st\<lparr>messages := ms\<rparr>"
    have "messages ?st \<noteq> []" using \<open>ms \<noteq> []\<close> by simp
    from Cons.IH [OF this, of False d1] obtain f' d' ms' where
      "ms' \<noteq> []" and
      "\<forall>rest. read_loop new_id False d1 (map Value vs @ rest) ?st =
         read_loop new_id f' d' rest (?st\<lparr>messages := ms'\<rparr>)"
      by blast
    with False dec ac have "ms' \<noteq> [] \<and>
      (\<forall>rest. read_loop new_id f d (map Value (v # vs) @ rest) st =
         read_loop new_id f' d' rest (st\<lparr>messages := ms'\<rparr>))"
      by simp
    then show ?thesis by blast
  qed
qed

text \<open>
  C9. A call of \<open>stop()\<close> while the request is in flight, during the fetch or during
  a read, ends the handler without an error: the run is the run on the stream cut at that
  point, with the signal aborted, the error state stays null and loading is cleared. An
  exception that is not an \<open>AbortError\<close>, from a read or from the fetch, is what the
  error state holds afterwards, and loading is cleared as well.
\<close>

theorem abort_is_not_reported:
  assumes "\<not> list_all is_space (input st)" and "err_name e \<noteq> lit ''AbortError''"
  shows
   "handleSubmit (env\<lparr>fetch := raw_stream (map Value vs @ UserStop # rest)\<rparr>) st =
      map_sum id (\<lambda>s. s\<lparr>signal_aborted := True\<rparr>)
        (handleSubmit (env\<lparr>fetch := raw_stream (map Value vs)\<rparr>) st) \<and>
    map_sum id error
      (handleSubmit (env\<lparr>fetch := raw_stream (map Value vs @ UserStop # rest)\<rparr>) st) = Inr None \<and>
    map_sum id isLoading
      (handleSubmit (env\<lparr>fetch := raw_stream (map Value vs @ UserStop # rest)\<rparr>) st) = Inr False \<and>
    handleSubmit (env\<lparr>fetch := StopThen f\<rparr>) st =
      Inr (st\<lparr>messages := messages st @
                [\<lparr>ui_id = user_id env, ui_role = User,
                  parts = [Part (Some (lit ''text'')) [] (input st)]\<rparr>],
              input := [], isLoading := False, error := None,
              abortControllerRef := None, signal_aborted := True,
              requests := requests st @
                [messages st @
                 [\<lparr>ui_id = user_id env, ui_role = User,
                   parts = [Part (Some (lit ''text'')) [] (input st)]\<rparr>]]\<rparr>) \<and>
    handleSubmit (env\<lparr>fetch := raw_stream (map Value vs @ ReadRejects e # rest)\<rparr>) st =
      map_sum id (\<lambda>s. s\<lparr>error := Some e\<rparr>)
        (handleSubmit (env\<lparr>fetch := raw_stream (map Value vs)\<rparr>) st) \<and>
    map_sum id error
      (handleSubmit (env\<lparr>fetch := raw_stream (map Value vs @ ReadRejects e # rest)\<rparr>) st)
      = Inr (Some e) \<and>
    map_sum id isLoading
      (handleSubmit (env\<lparr>fetch := raw_stream (map Value vs @ ReadRejects e # rest)\<rparr>) st)
      = Inr False \<and>
    handleSubmit (env\<lparr>fetch := FetchRejects e\<rparr>) st =
      Inr (st\<lparr>messages := messages st @
                [\<lparr>ui_id = user_id env, ui_role = User,
                  parts = [Part (Some (lit ''text'')) [] (input st)]\<rparr>],
              input := [], isLoading := False, error := Some e,
              abortControllerRef := None, signal_aborted := False,
              requests := requests st @
                [messages st @
                 [\<lparr>ui_id = user_id env, ui_role = User,
                   parts = [Part (Some (lit ''text'')) [] (input st)]\<rparr>]]\<rparr>)"
proof -
  let ?user = "\<lparr>ui_id = user_id env, ui_role = User,
                 parts = [Part (Some (lit ''text'')) [] (input st)]\<rparr>"
  define st1 where "st1 = st\<lparr>messages := messages st @ [?user], input := [], isLoading := True,
      error := None, abortControllerRef := Some AbortController, signal_aborted := False,
      requests := requests st @ [messages st @ [?user]]\<rparr>"
  define new_id where "new_id = assistant_id env"
  have hs: "\<And>g. handleSubmit (env\<lparr>fetch := g\<rparr>) st =
      (case try_block new_id g st1 of
         Completed st2 \<Rightarrow> Inr (finally_block st2)
       | Threw err st2 \<Rightarrow> Inr (finally_block (catch_block err st2))
       | UpdaterThrew err \<Rightarrow> Inl err)"
    using assms(1) by (simp add: handleSubmit_def Let_def trim_empty_iff st1_def new_id_def)
  have "messages st1 \<noteq> []" by (simp add: st1_def)
  from read_loop_values [OF this, of new_id True new_TextDecoder vs]
  obtain f' d' ms' where
    rl: "\<And>rest. read_loop new_id True new_TextDecoder (map Value vs @ rest) st1 =
           read_loop new_id f' d' rest (st1\<lparr>messages := ms'\<rparr>)"
    by blast
  have tb: "\<And>rest. try_block new_id (raw_stream (map Value vs @ rest)) st1 =
      read_loop new_id f' d' rest (st1\<lparr>messages := ms'\<rparr>)"
    by (simp add: raw_stream_def rl)
  have cut: "handleSubmit (env\<lparr>fetch := raw_stream (map Value vs)\<rparr>) st =
      Inr (finally_block (st1\<lparr>messages := ms'\<rparr>))"
    using tb [of "[]"] by (simp add: hs)
  have ref: "abortControllerRef st1 = Some AbortController"
    "abortControllerRef (st1\<lparr>messages := ms'\<rparr>) = Some AbortController"
    by (simp_all add: st1_def)
  have abort: "err_name AbortError = lit ''AbortError''" by (simp add: AbortError_def)
  have "try_block new_id (raw_stream (map Value vs @ UserStop # rest)) st1 =
      Threw AbortError (st1\<lparr>messages := ms', signal_aborted := True, abortControllerRef := None\<rparr>)"
    by (simp add: tb stop_live [OF ref(2)])
  then have stopped:
    "handleSubmit (env\<lparr>fetch := raw_stream (map Value vs @ UserStop # rest)\<rparr>) st =
      Inr (finally_block (st1\<lparr>messages := ms', signal_aborted := True\<rparr>))"
    by (simp add: hs catch_block_def abort finally_block_def)
  have "try_block new_id (raw_stream (map Value vs @ ReadRejects e # rest)) st1 =
      Threw e (st1\<lparr>messages := ms'\<rparr>)"
    by (simp add: tb)
  then have rejected:
    "handleSubmit (env\<lparr>fetch := raw_stream (map Value vs @ ReadRejects e # rest)\<rparr>) st =
      Inr (finally_block (st1\<lparr>messages := ms', error := Some e\<rparr>))"
    using assms(2) by (simp add: hs catch_block_def)
  have "try_block new_id (StopThen f) st1 =
      Threw AbortError (st1\<lparr>signal_aborted := True, abortControllerRef := None\<rparr>)"
    by (simp add: stop_live [OF ref(1)])
  then have early: "handleSubmit (env\<lparr>fetch := StopThen f\<rparr>) st =
      Inr (finally_block (st1\<lparr>signal_aborted := True\<rparr>))"
    by (simp add: hs catch_block_def abort finally_block_def)
  have failed: "handleSubmit (env\<lparr>fetch := FetchRejects e\<rparr>) st =
      Inr (finally_block (st1\<lparr>error := Some e\<rparr>))"
    using assms(2) by (simp add: hs catch_block_def)
  show ?thesis
    unfolding cut stopped rejected early failed
    by (simp add: finally_block_def st1_def)
qed

theorem abort_is_not_reported_witness:
  "\<not> list_all is_space (input hook_ready) \<and>
   err_name network_error \<noteq> lit ''AbortError'' \<and>
   map_sum id error
     (handleSubmit (hook_call (raw_stream [Value (ascii ''Hi ''), UserStop, Value (ascii ''there'')]))
        hook_ready) = Inr None \<and>
   map_sum id isLoading
     (handleSubmit (hook_call (raw_stream [Value (ascii ''Hi ''), UserStop, Value (ascii ''there'')]))
        hook_ready) = Inr False \<and>
   map_sum id error
     (handleSubmit (hook_call (StopThen (raw_stream [Value (ascii ''Hi '')]))) hook_ready)
     = Inr None \<and>
   map_sum id error
     (handleSubmit
        (hook_call (raw_stream [Value (ascii ''Hi ''), ReadRejects network_error,
           Value (ascii ''there'')]))
        hook_ready) = Inr (Some network_error) \<and>
   map_sum id error (handleSubmit (hook_call (FetchRejects network_error)) hook_ready)
     = Inr (Some network_error)"
proof -
  have h1: "\<not> list_all is_space (input hook_ready)" by code_simp
  have h2: "err_name network_error \<noteq> lit ''AbortError''" by code_simp
  have u: "\<And>g h. (hook_call g)\<lparr>fetch := h\<rparr> = hook_call h" by (simp add: hook_call_def)
  note t = abort_is_not_reported [OF h1 h2, where env = "hook_call (raw_stream [])"
      and vs = "[ascii ''Hi '']" and rest = "[Value (ascii ''there'')]"
      and f = "raw_stream [Value (ascii ''Hi '')]"]
  have c2: "map_sum id error
     (handleSubmit (hook_call (raw_stream [Value (ascii ''Hi ''), UserStop, Value (ascii ''there'')]))
        hook_ready) = Inr None"
    using t [THEN conjunct2, THEN conjunct1] by (simp add: u)
  have c3: "map_sum id isLoading
     (handleSubmit (hook_call (raw_stream [Value (ascii ''Hi ''), UserStop, Value (ascii ''there'')]))
        hook_ready) = Inr False"
    using t [THEN conjunct2, THEN conjunct2, THEN conjunct1] by (simp add: u)
  have c4: "map_sum id error
     (handleSubmit (hook_call (StopThen (raw_stream [Value (ascii ''Hi '')]))) hook_ready)
     = Inr None"
    using t [THEN conjunct2, THEN conjunct2, THEN conjunct2, THEN conjunct1] by (simp add: u)
  have c6: "map_sum id error
     (handleSubmit
        (hook_call (raw_stream [Value (ascii ''Hi ''), ReadRejects network_error,
           Value (ascii ''there'')]))
        hook_ready) = Inr (Some network_error)"
    using t [THEN conjunct2, THEN conjunct2, THEN conjunct2, THEN conjunct2, THEN conjunct2,
        THEN conjunct1]
    by (simp add: u)
  have c8: "map_sum id error (handleSubmit (hook_call (FetchRejects network_error)) hook_ready)
     = Inr (Some network_error)"
    using t [THEN conjunct2, THEN conjunct2, THEN conjunct2, THEN conjunct2, THEN conjunct2,
        THEN conjunct2, THEN conjunct2]
    by (simp add: u)
  from h1 h2 c2 c3 c4 c6 c8 show ?thesis by blast
qed

section \<open>Characters split across reads\<close>

lemma utf8_run_append:
  "utf8_run d (a @ b) =
     (let (o1, d1) = utf8_run d a; (o2, d2) = utf8_run d1 b in (o1 @ o2, d2))"
  by (induction a arbitrary: d) (simp_all add: Let_def split: prod.splits)

lemma serialize_append:
  "serialize seen (a @ b) =
     (let (s1, seen1) = serialize seen a; (s2, seen2) = serialize seen1 b in (s1 @ s2, seen2))"
  by (induction a arbitrary: seen) (simp_all add: Let_def split: prod.splits)

text \<open>
  The hook decodes with \<open>{stream: true}\<close>: decoding a read in two pieces, the second
  with the decoder that the first left, gives the text of decoding it in one piece.
\<close>

lemma decode_stream_split:
  "decode True td (a @ b) =
     (let (s1, td1) = decode True td a; (s2, td2) = decode True td1 b in (s1 @ s2, td2))"
proof -
  let ?td0 = "if do_not_flush td then td else new_TextDecoder"
  obtain o1 d1 where r1: "utf8_run (utf8 ?td0) a = (o1, d1)"
    by (cases "utf8_run (utf8 ?td0) a")
  obtain o2 d2 where r2: "utf8_run d1 b = (o2, d2)"
    by (cases "utf8_run d1 b")
  obtain s1 seen1 where z1: "serialize (bom_seen ?td0) o1 = (s1, seen1)"
    by (cases "serialize (bom_seen ?td0) o1")
  obtain s2 seen2 where z2: "serialize seen1 o2 = (s2, seen2)"
    by (cases "serialize seen1 o2")
  have whole: "decode True td (a @ b) =
      (s1 @ s2, \<lparr>utf8 = d2, bom_seen = seen2, do_not_flush = True\<rparr>)"
    using r1 r2 z1 z2 by (simp add: decode_def utf8_run_append serialize_append)
  have first: "decode True td a = (s1, \<lparr>utf8 = d1, bom_seen = seen1, do_not_flush = True\<rparr>)"
    using r1 z1 by (simp add: decode_def)
  have second: "decode True \<lparr>utf8 = d1, bom_seen = seen1, do_not_flush = True\<rparr> b =
      (s2, \<lparr>utf8 = d2, bom_seen = seen2, do_not_flush = True\<rparr>)"
    using r2 z2 by (simp add: decode_def)
  show ?thesis by (simp add: whole first second)
qed

text \<open>
  C7. A character whose bytes are split across two reads should decode to that
  character in both modes. The hook passes \<open>{stream: true}\<close>, so the decoder keeps
  the open sequence: the bytes C3 and A9 in two reads give nothing and then U+00E9. The
  component calls \<open>decode\<close> without that option, so every read is flushed: each of
  the two bytes gives U+FFFD, and the two lines that come out of the split record carry
  the replacement character.
\<close>

theorem split_character_is_replaced:
  "fst (decode True new_TextDecoder [0xC3]) = [] \<and>
   fst (decode True (snd (decode True new_TextDecoder [0xC3])) [0xA9]) = [0xE9] \<and>
   fst (decode False new_TextDecoder [0xC3]) = [0xFFFD] \<and>
   fst (decode False (snd (decode False new_TextDecoder [0xC3])) [0xA9]) = [0xFFFD] \<and>
   lines_of_reads accent_reads =
     [lit ''{\"type\":\"chunk\",\"data\":\"'' @ [0xFFFD], [0xFFFD] @ lit ''\"}''] \<and>
   lines_of_reads [concat accent_reads] =
     [lit ''{\"type\":\"chunk\",\"data\":\"'' @ [0xE9] @ lit ''\"}'']"
  by code_simp

end
